theory Spec2Isabelle
  imports Complex_Main
begin

section \<open>Scoring policy (ChatArea.tsx, \<open>calculatePoints\<close>)\<close>

text \<open>
  The component \<open>ChatArea\<close> computes the award for a correct guess with
  \<^verbatim>\<open>
  const calculatePoints = (timeLeft: number, maxTime: number = 60): number => {
    const timeRatio = timeLeft / maxTime
    const basePoints = 100
    const timeBonus = Math.floor(timeRatio * 50) // Up to 50 bonus points
    return Math.max(basePoints + timeBonus, 50) // Minimum 50 points
  }
  \<close>
  JavaScript numbers are doubles; every finite double is a real number, so the arguments
  are modelled as \<open>real\<close> and the arithmetic is exact. The quotient by zero is
  \<open>Infinity\<close>, \<open>-Infinity\<close> or \<open>NaN\<close> in the source (depending on the signs, also
  of the zero); the model has no such values and returns \<open>None\<close> there, so that
  nothing is said about them.
\<close>

definition calculatePoints :: "real \<Rightarrow> real \<Rightarrow> int option" where
  "calculatePoints timeLeft maxTime =
     (if maxTime = 0 then None
      else
        let timeRatio = timeLeft / maxTime;
            basePoints = 100;
            timeBonus = \<lfloor>timeRatio * 50\<rfloor>
        in Some (max (basePoints + timeBonus) 50))"

text \<open>The call with one argument takes the default \<open>maxTime = 60\<close>.\<close>

definition calculatePoints_default :: "real \<Rightarrow> int option" where
  "calculatePoints_default timeLeft = calculatePoints timeLeft 60"



section \<open>The store\<close>

text \<open>
  All shared state lives in the tables of an external store (\<open>blink.db\<close>), reached by
  \<open>create\<close>, \<open>list\<close> (with an equality filter and an order), \<open>update\<close> by id and
  \<open>delete\<close> by id. A table is the list of its rows in creation order. The store's
  client library is not part of the repository; its calls are modelled as follows, and
  every call is taken to succeed (no transient I/O failure):
  \<^item> \<open>update\<close> changes the fields given in every row carrying the id;
  \<open>delete\<close> removes the rows carrying it;
  \<^item> \<open>create\<close> appends the row; with an id already present it is refused and
  the table stays as it is (the exception is caught by the caller's \<open>try\<close>);
  \<^item> \<open>list\<close> with \<open>orderBy: { score: 'desc' }\<close> is a stable sort: rows of equal
  score keep their creation order.
\<close>

datatype gameState = waiting | playing | finished

record User =
  user_id :: string
  email :: "string option"

record Player =
  player_id :: string
  player_roomId :: string
  userId :: string
  displayName :: string
  score :: int
  isReady :: bool

record GameRoom =
  room_id :: string
  roomCode :: string
  hostUserId :: string
  currentRound :: int
  maxRounds :: int
  roundTime :: int
  currentDrawerId :: "string option"
  currentWord :: "string option"
  gameState :: gameState
  roundStartTime :: "string option"

text \<open>
  A row of \<open>gameStats\<close>. The source keeps \<open>correctGuessers\<close> as the JSON text of an
  array of user ids (\<open>JSON.parse\<close> on reading, \<open>JSON.stringify\<close> on writing); the
  model keeps the array itself.
\<close>

record GameStats =
  stats_id :: string
  stats_roomId :: string
  roundNumber :: int
  drawerId :: string
  word :: string
  correctGuessers :: "string list"

record GameMessage =
  msg_id :: string
  msg_roomId :: string
  msg_userId :: string
  msg_displayName :: string
  message :: string
  isGuess :: bool
  isCorrect :: bool

record Point =
  point_x :: real
  point_y :: real

record StrokeData =
  points :: "Point list"
  color :: string
  stroke_size :: real
  isEraser :: bool

text \<open>
  A row of \<open>drawingStrokes\<close>. The source keeps \<open>strokeData\<close> as JSON text; the model
  keeps the parsed value, and \<open>None\<close> for a text that \<open>JSON.parse\<close> rejects.
\<close>

record DrawingStroke =
  stroke_id :: string
  stroke_roomId :: string
  stroke_roundNumber :: int
  strokeData :: "StrokeData option"

record Store =
  gameRooms :: "GameRoom list"
  roomPlayers :: "Player list"
  gameStats :: "GameStats list"
  gameMessages :: "GameMessage list"
  drawingStrokes :: "DrawingStroke list"

definition db_update :: "('a \<Rightarrow> string) \<Rightarrow> string \<Rightarrow> ('a \<Rightarrow> 'a) \<Rightarrow> 'a list \<Rightarrow> 'a list" where
  "db_update key i f rows = map (\<lambda>r. if key r = i then f r else r) rows"

definition db_create :: "('a \<Rightarrow> string) \<Rightarrow> 'a \<Rightarrow> 'a list \<Rightarrow> 'a list" where
  "db_create key r rows = (if key r \<in> set (map key rows) then rows else rows @ [r])"

definition db_delete :: "('a \<Rightarrow> string) \<Rightarrow> string \<Rightarrow> 'a list \<Rightarrow> 'a list" where
  "db_delete key i rows = filter (\<lambda>r. key r \<noteq> i) rows"

text \<open>\<open>Array.prototype.findIndex\<close>: the first index whose element passes, or \<open>-1\<close>.\<close>

fun findIndex :: "('a \<Rightarrow> bool) \<Rightarrow> 'a list \<Rightarrow> int" where
  "findIndex P [] = - 1"
| "findIndex P (x # xs) =
     (if P x then 0 else (let i = findIndex P xs in if i < 0 then - 1 else i + 1))"

text \<open>Reading \<open>xs[i]\<close>: \<open>undefined\<close> (here \<open>None\<close>) out of range.\<close>

definition at_index :: "'a list \<Rightarrow> int \<Rightarrow> 'a option" where
  "at_index xs i = (if 0 \<le> i \<and> i < int (length xs) then Some (xs ! nat i) else None)"

text \<open>A number inside a template literal prints in decimal.\<close>

fun digits :: "nat \<Rightarrow> string" where
  "digits n =
     (if n < 10 then [char_of (48 + n)] else digits (n div 10) @ [char_of (48 + n mod 10)])"

declare digits.simps [simp del]

definition show_int :: "int \<Rightarrow> string" where
  "show_int i = (if i < 0 then CHR ''-'' # digits (nat (- i)) else digits (nat i))"

section \<open>The room component (GameRoom.tsx)\<close>

text \<open>
  The component holds a local copy of the room row and of the player list, the signed-in
  user and the flag \<open>isDrawer\<close>; \<open>roomCode\<close> is its property. Every operation reads
  the local copy and writes to the store.
\<close>

record GameRoomView =
  view_roomCode :: string
  room :: "GameRoom option"
  players :: "Player list"
  user :: "User option"
  isDrawer :: bool

text \<open>\<open>gameRoom.currentDrawerId === user?.id\<close>: \<open>null\<close> and \<open>undefined\<close> equal no id.\<close>

definition same_user :: "string option \<Rightarrow> User option \<Rightarrow> bool" where
  "same_user d u =
     (case d of None \<Rightarrow> False
      | Some i \<Rightarrow> (case u of None \<Rightarrow> False | Some w \<Rightarrow> i = user_id w))"

text \<open>
  \<open>loadGameRoom\<close> reads the room with the component's code and its players,
  \<^emph>\<open>ordered by descending score\<close>. With no such room the exception is caught and the
  local copy stays. The countdown it restarts is not modelled.
  \<^verbatim>\<open>
  const roomData = await blink.db.gameRooms.list({ where: { roomCode }, limit: 1 })
  if (roomData.length === 0) { throw new Error('Room not found') }
  const gameRoom = roomData[0] as any
  setRoom(gameRoom)
  const playersData = await blink.db.roomPlayers.list({
    where: { roomId: gameRoom.id },
    orderBy: { score: 'desc' }
  })
  setPlayers(playersData as Player[])
  setIsDrawer(gameRoom.currentDrawerId === user?.id)
  \<close>
\<close>

definition loadGameRoom :: "Store \<Rightarrow> GameRoomView \<Rightarrow> GameRoomView" where
  "loadGameRoom db v =
     (case filter (\<lambda>r. roomCode r = view_roomCode v) (gameRooms db) of
        [] \<Rightarrow> v
      | gameRoom # _ \<Rightarrow>
          v\<lparr>room := Some gameRoom,
            players := sort_key (\<lambda>p. - score p)
                         (filter (\<lambda>p. player_roomId p = room_id gameRoom) (roomPlayers db)),
            isDrawer := same_user (currentDrawerId gameRoom) (user v)\<rparr>)"

text \<open>\<open>user.email?.split('@')[0] || 'Player'\<close>\<close>

definition displayName_of :: "User \<Rightarrow> string" where
  "displayName_of u =
     (case email u of None \<Rightarrow> ''Player''
      | Some e \<Rightarrow> (let n = takeWhile (\<lambda>c. c \<noteq> CHR ''@'') e in if n = [] then ''Player'' else n))"

text \<open>
  \<open>joinRoom\<close> creates the player's row with score 0 and reloads; when the store
  refuses the row (the user has joined already) the \<open>catch\<close> ends the call.
\<close>

definition joinRoom :: "GameRoomView \<Rightarrow> Store \<Rightarrow> GameRoomView \<times> Store" where
  "joinRoom v db =
     (case user v of None \<Rightarrow> (v, db)
      | Some u \<Rightarrow>
         (case room v of None \<Rightarrow> (v, db)
          | Some r \<Rightarrow>
             (let row = \<lparr>player_id = ''player_'' @ user_id u @ ''_'' @ room_id r,
                         player_roomId = room_id r, userId = user_id u,
                         displayName = displayName_of u, score = 0, isReady = False\<rparr>
              in if player_id row \<in> set (map player_id (roomPlayers db)) then (v, db)
                 else
                   (let db' = db\<lparr>roomPlayers := roomPlayers db @ [row]\<rparr>
                    in (loadGameRoom db' v, db')))))"

text \<open>
  \<open>nextRound\<close>. The next drawer is
  \<open>players[(players.findIndex(p => p.userId === room.currentDrawerId) + 1) % players.length]\<close>,
  read in the local player list (\<open>nextDrawer\<close> below; the remainder by an empty
  list's length is \<open>NaN\<close> and the read gives \<open>undefined\<close>). The word comes from
  \<open>getRandomWord()\<close> (a random choice among the room's custom words or a word
  category) and the time stamp from the clock; both are arguments here. With an empty
  player list \<open>nextDrawer\<close> is \<open>undefined\<close>, and
  reading \<open>nextDrawer.userId\<close> throws before anything is written: the \<open>catch\<close>
  logs the error and the store stays as it is.
  \<^verbatim>\<open>
  if (!room || !user) return
  try {
    const nextRoundNumber = room.currentRound + 1
    const nextDrawerIndex = players.findIndex(p => p.userId === room.currentDrawerId) + 1
    const nextDrawer = players[nextDrawerIndex % players.length]
    if (nextRoundNumber > room.maxRounds) {
      await blink.db.gameRooms.update(room.id, { gameState: 'finished' })
      ...
      return
    }
    const randomWord = await getRandomWord()
    await blink.db.gameRooms.update(room.id, {
      currentRound: nextRoundNumber,
      currentDrawerId: nextDrawer.userId,
      currentWord: randomWord,
      roundStartTime: new Date().toISOString()
    })
    await blink.db.gameStats.create({
      id: `stats_${room.id}_${nextRoundNumber}`, roomId: room.id,
      roundNumber: nextRoundNumber, drawerId: nextDrawer.userId,
      word: randomWord, correctGuessers: '[]'
    })
    ...
  } catch (error) { console.error('Error advancing round:', error) }
  \<close>
\<close>

definition nextDrawer :: "Player list \<Rightarrow> string option \<Rightarrow> Player option" where
  "nextDrawer ps drawer =
     (let nextDrawerIndex = findIndex (\<lambda>p. Some (userId p) = drawer) ps + 1
      in if ps = [] then None else at_index ps (nextDrawerIndex mod int (length ps)))"

definition nextRound :: "string \<Rightarrow> string \<Rightarrow> GameRoomView \<Rightarrow> Store \<Rightarrow> Store" where
  "nextRound now randomWord v db =
     (case room v of None \<Rightarrow> db
      | Some r \<Rightarrow>
         (case user v of None \<Rightarrow> db
          | Some u \<Rightarrow>
             (let nextRoundNumber = currentRound r + 1;
                  nextDrawer' = nextDrawer (players v) (currentDrawerId r)
              in if nextRoundNumber > maxRounds r
                 then db\<lparr>gameRooms :=
                          db_update room_id (room_id r) (\<lambda>g. g\<lparr>gameState := finished\<rparr>)
                            (gameRooms db)\<rparr>
                 else
                   (case nextDrawer' of None \<Rightarrow> db
                    | Some d \<Rightarrow>
                        db\<lparr>gameRooms :=
                             db_update room_id (room_id r)
                               (\<lambda>g. g\<lparr>currentRound := nextRoundNumber,
                                      currentDrawerId := Some (userId d),
                                      currentWord := Some randomWord,
                                      roundStartTime := Some now\<rparr>)
                               (gameRooms db),
                           gameStats :=
                             db_create stats_id
                               \<lparr>stats_id = ''stats_'' @ room_id r @ ''_'' @ show_int nextRoundNumber,
                                stats_roomId = room_id r, roundNumber = nextRoundNumber,
                                drawerId = userId d, word = randomWord, correctGuessers = []\<rparr>
                               (gameStats db)\<rparr>))))"

text \<open>
  \<open>startGame\<close> returns at once unless the caller is the host and two players are
  loaded; it does not read \<open>room.gameState\<close>.
  \<^verbatim>\<open>
  if (!room || !user || room.hostUserId !== user.id || players.length < 2) return
  try {
    const firstDrawer = players[0]
    const randomWord = await getRandomWord()
    await blink.db.gameRooms.update(room.id, {
      gameState: 'playing',
      currentDrawerId: firstDrawer.userId,
      currentWord: randomWord,
      currentRound: 1,
      roundStartTime: new Date().toISOString()
    })
    await blink.db.gameStats.create({ id: `stats_${room.id}_1`, ... })
    ...
  } catch (error) { ... }
  \<close>
\<close>

definition startGame :: "string \<Rightarrow> string \<Rightarrow> GameRoomView \<Rightarrow> Store \<Rightarrow> Store" where
  "startGame now randomWord v db =
     (case room v of None \<Rightarrow> db
      | Some r \<Rightarrow>
         (case user v of None \<Rightarrow> db
          | Some u \<Rightarrow>
             if hostUserId r \<noteq> user_id u \<or> length (players v) < 2 then db
             else
               (case players v of [] \<Rightarrow> db
                | firstDrawer # _ \<Rightarrow>
                    db\<lparr>gameRooms :=
                         db_update room_id (room_id r)
                           (\<lambda>g. g\<lparr>gameState := playing,
                                  currentDrawerId := Some (userId firstDrawer),
                                  currentWord := Some randomWord,
                                  currentRound := 1,
                                  roundStartTime := Some now\<rparr>)
                           (gameRooms db),
                       gameStats :=
                         db_create stats_id
                           \<lparr>stats_id = ''stats_'' @ room_id r @ ''_1'',
                            stats_roomId = room_id r, roundNumber = 1,
                            drawerId = userId firstDrawer, word = randomWord,
                            correctGuessers = []\<rparr>
                           (gameStats db)\<rparr>)))"

text \<open>
  The room component renders the control that calls \<open>startGame\<close> only while the local
  room is \<open>waiting\<close>, for a user who is among the local players and is the host, and
  disables it below two players:
  \<^verbatim>\<open>
  {room.gameState === 'waiting' && (
    ... {!currentPlayer ? ( <Button onClick={joinRoom} ...> )
         : isHost ? ( <Button onClick={startGame} disabled={players.length < 2} ...> )
         : ( <p>Waiting for host to start the game...</p> )}
  \<close>
  \<open>click_start\<close> is a click on that control, when it is there and enabled.
\<close>

definition start_enabled :: "GameRoomView \<Rightarrow> bool" where
  "start_enabled v =
     (case room v of None \<Rightarrow> False
      | Some r \<Rightarrow>
          gameState r = waiting \<and>
          find (\<lambda>p. same_user (Some (userId p)) (user v)) (players v) \<noteq> None \<and>
          same_user (Some (hostUserId r)) (user v) \<and>
          \<not> length (players v) < 2)"

definition click_start :: "string \<Rightarrow> string \<Rightarrow> GameRoomView \<Rightarrow> Store \<Rightarrow> Store" where
  "click_start now randomWord v db =
     (if start_enabled v then startGame now randomWord v db else db)"

text \<open>
  \<open>awardPoints\<close> writes \<open>player.score + points\<close> for the player found in the local
  list, then adds the player to the correct guessers of the current round's statistics
  unless already there, then reloads. With no local room, \<open>room!.id\<close> throws after
  the score has been written, and the \<open>catch\<close> ends the call.
  \<^verbatim>\<open>
  const player = players.find(p => p.userId === playerId)
  if (!player) return
  await blink.db.roomPlayers.update(player.id, { score: player.score + points })
  const currentStats = await blink.db.gameStats.list({
    where: { roomId: room!.id, roundNumber: room!.currentRound }, limit: 1
  })
  if (currentStats.length > 0) {
    const stats = currentStats[0] as any
    const correctGuessers = JSON.parse(stats.correctGuessers || '[]')
    if (!correctGuessers.includes(playerId)) {
      correctGuessers.push(playerId)
      await blink.db.gameStats.update(stats.id, {
        correctGuessers: JSON.stringify(correctGuessers)
      })
    }
  }
  loadGameRoom()
  \<close>
\<close>

definition awardPoints :: "string \<Rightarrow> int \<Rightarrow> GameRoomView \<Rightarrow> Store \<Rightarrow> GameRoomView \<times> Store" where
  "awardPoints playerId pts v db =
     (case find (\<lambda>p. userId p = playerId) (players v) of
        None \<Rightarrow> (v, db)
      | Some player \<Rightarrow>
         (let db1 = db\<lparr>roomPlayers :=
                       db_update player_id (player_id player)
                         (\<lambda>p. p\<lparr>score := score player + pts\<rparr>) (roomPlayers db)\<rparr>
          in case room v of None \<Rightarrow> (v, db1)
             | Some r \<Rightarrow>
                (let currentStats =
                       filter (\<lambda>s. stats_roomId s = room_id r \<and> roundNumber s = currentRound r)
                         (gameStats db1);
                     db2 =
                       (case currentStats of [] \<Rightarrow> db1
                        | stats # _ \<Rightarrow>
                            if playerId \<in> set (correctGuessers stats) then db1
                            else db1\<lparr>gameStats :=
                                   db_update stats_id (stats_id stats)
                                     (\<lambda>s. s\<lparr>correctGuessers := correctGuessers stats @ [playerId]\<rparr>)
                                     (gameStats db1)\<rparr>)
                 in (loadGameRoom db2 v, db2))))"

section \<open>The chat component (ChatArea.tsx)\<close>

text \<open>
  Texts are byte strings; \<open>toLowerCase\<close> and \<open>trim\<close> are modelled on ASCII (the
  letters \<open>A\<close> to \<open>Z\<close>; space, tab, line feed, vertical tab, form feed and carriage
  return), which is where the source's Unicode versions agree with them.
\<close>

definition lower_char :: "char \<Rightarrow> char" where
  "lower_char c =
     (let n = (of_char c :: nat) in if 65 \<le> n \<and> n \<le> 90 then char_of (n + 32) else c)"

definition toLowerCase :: "string \<Rightarrow> string" where
  "toLowerCase s = map lower_char s"

definition is_space :: "char \<Rightarrow> bool" where
  "is_space c = (of_char c \<in> set [32, 9, 10, 11, 12, 13 :: nat])"

definition trim :: "string \<Rightarrow> string" where
  "trim s = rev (dropWhile is_space (rev (dropWhile is_space s)))"

text \<open>
  The properties of the component come from the room component
  (\<open>roomId = room.id\<close>, \<open>currentWord = room.currentWord\<close>, \<open>isDrawer\<close>,
  \<open>gameState = room.gameState\<close>, \<open>onCorrectGuess = awardPoints\<close>); its state is the
  text typed and the signed-in user.
\<close>

record ChatArea =
  chat_roomId :: string
  chat_currentWord :: "string option"
  chat_isDrawer :: bool
  chat_gameState :: gameState
  newMessage :: string
  chat_user :: "User option"

text \<open>
  The first part of \<open>sendMessage\<close>: the two early returns (\<open>None\<close>), the two flags
  and the row to create. \<open>isGuess && currentWord && ...\<close> is falsy for \<open>null\<close> and
  for the empty word. The id (\<open>msg_${Date.now()}_${Math.random()}\<close>) is an argument.
  \<^verbatim>\<open>
  if (!newMessage.trim() || !user) return
  if (isDrawer && gameState === 'playing') { return }
  const isGuess = gameState === 'playing' && !isDrawer
  const isCorrect = isGuess && currentWord &&
    newMessage.toLowerCase().trim() === currentWord.toLowerCase()
  const messageData = {
    id: `msg_${Date.now()}_${Math.random()}`, roomId, userId: user.id,
    displayName: user.email?.split('@')[0] || 'Player',
    message: newMessage.trim(), isGuess, isCorrect
  }
  \<close>
\<close>

definition messageData :: "string \<Rightarrow> ChatArea \<Rightarrow> GameMessage option" where
  "messageData mid c =
     (case chat_user c of None \<Rightarrow> None
      | Some u \<Rightarrow>
          if trim (newMessage c) = [] then None
          else if chat_isDrawer c \<and> chat_gameState c = playing then None
          else
            (let isGuess' = (chat_gameState c = playing \<and> \<not> chat_isDrawer c);
                 isCorrect' =
                   (isGuess' \<and>
                    (case chat_currentWord c of None \<Rightarrow> False
                     | Some currentWord' \<Rightarrow>
                         currentWord' \<noteq> [] \<and>
                         trim (toLowerCase (newMessage c)) = toLowerCase currentWord'))
             in Some \<lparr>msg_id = mid, msg_roomId = chat_roomId c, msg_userId = user_id u,
                       msg_displayName = displayName_of u, message = trim (newMessage c),
                       isGuess = isGuess', isCorrect = isCorrect'\<rparr>))"

text \<open>
  The points handed to \<open>onCorrectGuess\<close>: \<open>calculatePoints(60)\<close>, whatever the time
  left (the component is not given the countdown).
\<close>

definition awarded_points :: "int option" where
  "awarded_points = calculatePoints_default 60"

text \<open>
  \<open>sendMessage\<close>: the row is created; for a correct guess the points are computed and
  \<open>onCorrectGuess(user.id, points)\<close>, that is \<open>awardPoints\<close> of the room component,
  is called; the text field is emptied. When the store refuses the row nothing else
  happens. The notifications published are not modelled.
  \<^verbatim>\<open>
  await blink.db.gameMessages.create(messageData)
  if (isCorrect) {
    const points = calculatePoints(60) // Simplified - you could pass actual time left
    onCorrectGuess(user.id, points)
    ...
  }
  ...
  setNewMessage('')
  \<close>
\<close>

definition sendMessage ::
  "string \<Rightarrow> ChatArea \<Rightarrow> GameRoomView \<Rightarrow> Store \<Rightarrow> ChatArea \<times> GameRoomView \<times> Store" where
  "sendMessage mid c v db =
     (case messageData mid c of None \<Rightarrow> (c, v, db)
      | Some m \<Rightarrow>
          if msg_id m \<in> set (map msg_id (gameMessages db)) then (c, v, db)
          else
            (let db1 = db\<lparr>gameMessages := gameMessages db @ [m]\<rparr>;
                 vd = (if isCorrect m
                       then (case awarded_points of None \<Rightarrow> (v, db1)
                             | Some pts \<Rightarrow> awardPoints (msg_userId m) pts v db1)
                       else (v, db1))
             in (c\<lparr>newMessage := []\<rparr>, fst vd, snd vd)))"

text \<open>The properties the room component passes to the chat component.\<close>

definition chat_props :: "GameRoom \<Rightarrow> GameRoomView \<Rightarrow> ChatArea \<Rightarrow> ChatArea" where
  "chat_props r v c =
     c\<lparr>chat_roomId := room_id r, chat_currentWord := currentWord r,
       chat_isDrawer := isDrawer v, chat_gameState := gameState r\<rparr>"

section \<open>The drawing component (\<open>DrawingCanvas\<close>, after the chat component in ChatArea.tsx)\<close>

subsection \<open>The canvas context\<close>

text \<open>
  The component draws through the browser's \<open>CanvasRenderingContext2D\<close>, which is not
  code of the repository. The model keeps the part of its state that the component sets
  (styles, line width, caps and joins, compositing mode, current path) and, for the
  bitmap, the list of paint operations applied since the whole canvas was last cleared:
  the pixels are a function of that list. The context of a canvas element is one object
  for the element's life, so its state persists from one call to the next. Every
  \<open>clearRect\<close> and \<open>fillRect\<close> of the source covers the whole canvas
  (\<open>0, 0, canvas.width, canvas.height\<close>). \<open>clearRect\<close> sets the pixels to
  transparent whatever the compositing mode; \<open>fillRect\<close> and \<open>stroke\<close> paint
  with the current \<open>globalCompositeOperation\<close>. The colours used are opaque.
\<close>

datatype compositeOp = source_over | destination_out

datatype paint =
    FillRect string compositeOp
  | StrokePath "Point list list" string real string string compositeOp

record Ctx =
  fillStyle :: string
  strokeStyle :: string
  lineWidth :: real
  lineCap :: string
  lineJoin :: string
  globalCompositeOperation :: compositeOp
  path :: "Point list list"
  bitmap :: "paint list"

definition fresh_ctx :: Ctx where
  "fresh_ctx =
     \<lparr>fillStyle = ''#000000'', strokeStyle = ''#000000'', lineWidth = 1,
      lineCap = ''butt'', lineJoin = ''miter'', globalCompositeOperation = source_over,
      path = [], bitmap = []\<rparr>"

definition beginPath :: "Ctx \<Rightarrow> Ctx" where
  "beginPath ctx = ctx\<lparr>path := []\<rparr>"

definition moveTo :: "Point \<Rightarrow> Ctx \<Rightarrow> Ctx" where
  "moveTo p ctx = ctx\<lparr>path := path ctx @ [[p]]\<rparr>"

definition lineTo :: "Point \<Rightarrow> Ctx \<Rightarrow> Ctx" where
  "lineTo p ctx =
     (if path ctx = [] then ctx\<lparr>path := [[p]]\<rparr>
      else ctx\<lparr>path := butlast (path ctx) @ [last (path ctx) @ [p]]\<rparr>)"

definition stroke :: "Ctx \<Rightarrow> Ctx" where
  "stroke ctx =
     ctx\<lparr>bitmap := bitmap ctx @
            [StrokePath (path ctx) (strokeStyle ctx) (lineWidth ctx) (lineCap ctx)
               (lineJoin ctx) (globalCompositeOperation ctx)]\<rparr>"

definition clearRect :: "Ctx \<Rightarrow> Ctx" where
  "clearRect ctx = ctx\<lparr>bitmap := []\<rparr>"

definition fillRect :: "Ctx \<Rightarrow> Ctx" where
  "fillRect ctx =
     ctx\<lparr>bitmap := bitmap ctx @ [FillRect (fillStyle ctx) (globalCompositeOperation ctx)]\<rparr>"

text \<open>Assigning a line width that is not positive is ignored by the context.\<close>

definition set_lineWidth :: "real \<Rightarrow> Ctx \<Rightarrow> Ctx" where
  "set_lineWidth w ctx = (if 0 < w then ctx\<lparr>lineWidth := w\<rparr> else ctx)"

text \<open>
  A pixel that no stroke covers: transparent after a clear; a fill painted
  \<open>source-over\<close> gives it the fill colour, a fill painted \<open>destination-out\<close> removes
  what is there and leaves it transparent.
\<close>

datatype pixel = Transparent | Colour string

fun paint_background :: "pixel \<Rightarrow> paint \<Rightarrow> pixel" where
  "paint_background px (FillRect c source_over) = Colour c"
| "paint_background px (FillRect c destination_out) = Transparent"
| "paint_background px (StrokePath sp c w cap join' op) = px"

definition background :: "Ctx \<Rightarrow> pixel" where
  "background ctx = foldl paint_background Transparent (bitmap ctx)"

subsection \<open>Replaying strokes\<close>

text \<open>
  \<^verbatim>\<open>
  const drawStroke = useCallback((ctx, strokeData: StrokeData) => {
    if (!strokeData.points || strokeData.points.length < 2) return
    ctx.beginPath()
    ctx.strokeStyle = strokeData.color
    ctx.lineWidth = strokeData.size
    ctx.lineCap = 'round'
    ctx.lineJoin = 'round'
    if (strokeData.isEraser) {
      ctx.globalCompositeOperation = 'destination-out'
    } else {
      ctx.globalCompositeOperation = 'source-over'
    }
    ctx.moveTo(strokeData.points[0].x, strokeData.points[0].y)
    for (let i = 1; i < strokeData.points.length; i++) {
      ctx.lineTo(strokeData.points[i].x, strokeData.points[i].y)
    }
    ctx.stroke()
  }, [])
  \<close>
\<close>

definition drawStroke :: "StrokeData \<Rightarrow> Ctx \<Rightarrow> Ctx" where
  "drawStroke sd ctx =
     (case points sd of
        [] \<Rightarrow> ctx
      | [p] \<Rightarrow> ctx
      | p0 # rest \<Rightarrow>
          (let c1 = beginPath ctx;
               c2 = set_lineWidth (stroke_size sd) (c1\<lparr>strokeStyle := color sd\<rparr>);
               c3 = c2\<lparr>lineCap := ''round'', lineJoin := ''round''\<rparr>;
               c4 = c3\<lparr>globalCompositeOperation :=
                         (if isEraser sd then destination_out else source_over)\<rparr>;
               c5 = moveTo p0 c4;
               c6 = foldl (\<lambda>c p. lineTo p c) c5 rest
           in stroke c6))"

text \<open>
  \<open>redrawCanvas\<close> clears, fills with white and replays the strokes in the order
  given; a stroke whose data does not parse is skipped by the \<open>catch\<close>. It sets no
  compositing mode before the fill.
  \<^verbatim>\<open>
  ctx.clearRect(0, 0, canvas.width, canvas.height)
  ctx.fillStyle = '#ffffff'
  ctx.fillRect(0, 0, canvas.width, canvas.height)
  strokesData.forEach(stroke => {
    try {
      const strokeData = JSON.parse(stroke.strokeData) as StrokeData
      drawStroke(ctx, strokeData)
    } catch (error) { console.error('Error parsing stroke data:', error) }
  })
  \<close>
\<close>

definition redrawCanvas :: "DrawingStroke list \<Rightarrow> Ctx \<Rightarrow> Ctx" where
  "redrawCanvas strokesData ctx =
     foldl (\<lambda>c s. case strokeData s of None \<Rightarrow> c | Some sd \<Rightarrow> drawStroke sd c)
       (fillRect ((clearRect ctx)\<lparr>fillStyle := ''#ffffff''\<rparr>))
       strokesData"

subsection \<open>The component and its handlers\<close>

text \<open>
  The properties \<open>roomId\<close>, \<open>canDraw\<close> and \<open>currentRound\<close>, the state of the
  component, and the context of its canvas element (\<open>None\<close> while the element or its
  context is missing).
\<close>

record DrawingCanvas =
  dc_roomId :: string
  canDraw :: bool
  dc_currentRound :: int
  isDrawing :: bool
  currentColor :: string
  brushSize :: real
  tool_isEraser :: bool
  strokes :: "DrawingStroke list"
  currentStroke :: "Point list"
  canvas :: "Ctx option"

text \<open>
  The room component renders
  \<open>canDraw={isDrawer && room.gameState === 'playing'}\<close>.
\<close>

definition canvas_props :: "GameRoom \<Rightarrow> GameRoomView \<Rightarrow> DrawingCanvas \<Rightarrow> DrawingCanvas" where
  "canvas_props r v dc =
     dc\<lparr>dc_roomId := room_id r,
        canDraw := (isDrawer v \<and> gameState r = playing),
        dc_currentRound := currentRound r\<rparr>"

text \<open>\<open>loadStrokes\<close> lists the strokes of the room and round in creation order.\<close>

definition loadStrokes :: "Store \<Rightarrow> DrawingCanvas \<Rightarrow> DrawingCanvas" where
  "loadStrokes db dc =
     (let strokesData =
            filter (\<lambda>s. stroke_roomId s = dc_roomId dc \<and> stroke_roundNumber s = dc_currentRound dc)
              (drawingStrokes db)
      in dc\<lparr>strokes := strokesData,
            canvas := map_option (redrawCanvas strokesData) (canvas dc)\<rparr>)"

text \<open>The handler of the \<open>canvas_cleared\<close> notification.\<close>

definition on_canvas_cleared :: "DrawingCanvas \<Rightarrow> DrawingCanvas" where
  "on_canvas_cleared dc =
     dc\<lparr>strokes := [],
        canvas := map_option (\<lambda>ctx. fillRect ((clearRect ctx)\<lparr>fillStyle := ''#ffffff''\<rparr>))
                    (canvas dc)\<rparr>"

text \<open>
  The mouse handlers. The point is the result of \<open>getMousePos\<close> for the event.
  \<^verbatim>\<open>
  const startDrawing = (e) => {
    if (!canDraw) return
    setIsDrawing(true)
    const point = getMousePos(e)
    setCurrentStroke([point])
    ... ctx.beginPath(); ctx.moveTo(point.x, point.y)
  }
  const draw = (e) => {
    if (!isDrawing || !canDraw) return
    ... setCurrentStroke(prev => [...prev, point])
    ctx.strokeStyle = isEraser ? '#ffffff' : currentColor
    ctx.lineWidth = brushSize[0]; ctx.lineCap = 'round'; ctx.lineJoin = 'round'
    if (isEraser) {
      ctx.globalCompositeOperation = 'destination-out'
    } else {
      ctx.globalCompositeOperation = 'source-over'
    }
    ctx.lineTo(point.x, point.y); ctx.stroke(); ctx.beginPath(); ctx.moveTo(point.x, point.y)
  }
  const stopDrawing = async () => {
    if (!isDrawing || !canDraw || currentStroke.length < 2) {
      setIsDrawing(false); setCurrentStroke([]); return
    }
    setIsDrawing(false)
    const strokeData = { points: currentStroke, color: isEraser ? '#ffffff' : currentColor,
                         size: brushSize[0], isEraser }
    try {
      await blink.db.drawingStrokes.create({ id: strokeId, roomId,
        roundNumber: currentRound, strokeData: JSON.stringify(strokeData) })
      ...
      setCurrentStroke([])
    } catch (error) { console.error('Error saving stroke:', error) }
  }
  \<close>
\<close>

definition startDrawing :: "Point \<Rightarrow> DrawingCanvas \<Rightarrow> DrawingCanvas" where
  "startDrawing p dc =
     (if \<not> canDraw dc then dc
      else
        (let dc1 = dc\<lparr>isDrawing := True, currentStroke := [p]\<rparr>
         in case canvas dc1 of None \<Rightarrow> dc1
            | Some ctx \<Rightarrow> dc1\<lparr>canvas := Some (moveTo p (beginPath ctx))\<rparr>))"

definition draw :: "Point \<Rightarrow> DrawingCanvas \<Rightarrow> DrawingCanvas" where
  "draw p dc =
     (if \<not> isDrawing dc \<or> \<not> canDraw dc then dc
      else
        (case canvas dc of None \<Rightarrow> dc
         | Some ctx \<Rightarrow>
             (let c1 = set_lineWidth (brushSize dc)
                         (ctx\<lparr>strokeStyle :=
                                (if tool_isEraser dc then ''#ffffff'' else currentColor dc)\<rparr>);
                  c2 = c1\<lparr>lineCap := ''round'', lineJoin := ''round''\<rparr>;
                  c3 = c2\<lparr>globalCompositeOperation :=
                            (if tool_isEraser dc then destination_out else source_over)\<rparr>;
                  c4 = moveTo p (beginPath (stroke (lineTo p c3)))
              in dc\<lparr>currentStroke := currentStroke dc @ [p], canvas := Some c4\<rparr>)))"

text \<open>
  \<open>stopDrawing\<close> saves the stroke. The id
  (\<open>stroke_${Date.now()}_${Math.random()}\<close>) is an argument. When the store refuses
  the row the \<open>catch\<close> leaves \<open>currentStroke\<close> as it is.
\<close>

definition stopDrawing :: "string \<Rightarrow> DrawingCanvas \<Rightarrow> Store \<Rightarrow> DrawingCanvas \<times> Store" where
  "stopDrawing strokeId dc db =
     (if \<not> isDrawing dc \<or> \<not> canDraw dc \<or> length (currentStroke dc) < 2
      then (dc\<lparr>isDrawing := False, currentStroke := []\<rparr>, db)
      else
        (let strokeData' =
               \<lparr>points = currentStroke dc,
                color = (if tool_isEraser dc then ''#ffffff'' else currentColor dc),
                stroke_size = brushSize dc,
                isEraser = tool_isEraser dc\<rparr>
         in if strokeId \<in> set (map stroke_id (drawingStrokes db))
            then (dc\<lparr>isDrawing := False\<rparr>, db)
            else (dc\<lparr>isDrawing := False, currentStroke := []\<rparr>,
                  db\<lparr>drawingStrokes := drawingStrokes db @
                        [\<lparr>stroke_id = strokeId, stroke_roomId = dc_roomId dc,
                          stroke_roundNumber = dc_currentRound dc,
                          strokeData = Some strokeData'\<rparr>]\<rparr>)))"

text \<open>
  \<open>undoLastStroke\<close> deletes the last stroke of the local list and reloads;
  \<open>clearCanvas\<close> deletes every stroke of the round and blanks the local canvas.
\<close>

definition undoLastStroke :: "DrawingCanvas \<Rightarrow> Store \<Rightarrow> DrawingCanvas \<times> Store" where
  "undoLastStroke dc db =
     (if \<not> canDraw dc \<or> strokes dc = [] then (dc, db)
      else
        (let db' = db\<lparr>drawingStrokes :=
                      db_delete stroke_id (stroke_id (last (strokes dc))) (drawingStrokes db)\<rparr>
         in (loadStrokes db' dc, db')))"

definition clearCanvas :: "DrawingCanvas \<Rightarrow> Store \<Rightarrow> DrawingCanvas \<times> Store" where
  "clearCanvas dc db =
     (if \<not> canDraw dc then (dc, db)
      else
        (let db' = db\<lparr>drawingStrokes :=
                      filter (\<lambda>s. \<not> (stroke_roomId s = dc_roomId dc \<and>
                                       stroke_roundNumber s = dc_currentRound dc))
                        (drawingStrokes db)\<rparr>
         in case canvas dc of None \<Rightarrow> (dc, db')
            | Some ctx \<Rightarrow>
                (dc\<lparr>canvas := Some (fillRect ((clearRect ctx)\<lparr>fillStyle := ''#ffffff''\<rparr>)),
                    strokes := []\<rparr>, db')))"

text \<open>
  The canvas element binds \<open>onMouseDown\<close> to \<open>startDrawing\<close>, \<open>onMouseMove\<close> to
  \<open>draw\<close>, and \<open>onMouseUp\<close> and \<open>onMouseLeave\<close> to \<open>stopDrawing\<close>.
\<close>

datatype mouseEvent = MouseDown Point | MouseMove Point | MouseUp string | MouseLeave string

fun handle :: "mouseEvent \<Rightarrow> DrawingCanvas \<times> Store \<Rightarrow> DrawingCanvas \<times> Store" where
  "handle (MouseDown p) (dc, db) = (startDrawing p dc, db)"
| "handle (MouseMove p) (dc, db) = (draw p dc, db)"
| "handle (MouseUp strokeId) (dc, db) = stopDrawing strokeId dc db"
| "handle (MouseLeave strokeId) (dc, db) = stopDrawing strokeId dc db"

section \<open>Runs of the round engine, and the specification's words\<close>

text \<open>
  The drawers that \<open>n\<close> successive calls of \<open>nextRound\<close> set, starting after drawer
  \<open>d\<close>, while the local player list stays \<open>ps\<close>.
\<close>

fun drawer_seq :: "Player list \<Rightarrow> string option \<Rightarrow> nat \<Rightarrow> string option list" where
  "drawer_seq ps d 0 = []"
| "drawer_seq ps d (Suc n) =
     (let d' = map_option userId (nextDrawer ps d) in d' # drawer_seq ps d' n)"

text \<open>
  Join order is the creation order of the room's rows of \<open>roomPlayers\<close>. In the words
  of the specification the next drawer is the player after the current drawer in join
  order, wrapping around.
\<close>

definition joinOrder :: "Store \<Rightarrow> string \<Rightarrow> Player list" where
  "joinOrder db rid = filter (\<lambda>p. player_roomId p = rid) (roomPlayers db)"

definition spec_nextDrawer :: "Store \<Rightarrow> GameRoom \<Rightarrow> Player option" where
  "spec_nextDrawer db r = nextDrawer (joinOrder db (room_id r)) (currentDrawerId r)"








section \<open>An example game\<close>

text \<open>
  A room \<open>ABC123\<close> with three rounds, created by \<open>alice\<close>; \<open>alice\<close>, \<open>bob\<close> and
  \<open>carol\<close> join in this order. Each action is taken by a client that has just
  reloaded (\<open>client\<close>); the chat component of a client gets its properties from
  the reloaded room (\<open>chat_client\<close>). The states below are used to evaluate the
  operations on concrete inputs.
\<close>

definition alice :: User where
  "alice = \<lparr>user_id = ''a'', email = Some ''alice@example.org''\<rparr>"

definition bob :: User where
  "bob = \<lparr>user_id = ''b'', email = Some ''bob@example.org''\<rparr>"

definition carol :: User where
  "carol = \<lparr>user_id = ''c'', email = None\<rparr>"

definition room0 :: GameRoom where
  "room0 = \<lparr>room_id = ''R1'', roomCode = ''ABC123'', hostUserId = ''a'', currentRound = 0,
     maxRounds = 3, roundTime = 60, currentDrawerId = None, currentWord = None,
     gameState = waiting, roundStartTime = None\<rparr>"

definition db0 :: Store where
  "db0 = \<lparr>gameRooms = [room0], roomPlayers = [], gameStats = [], gameMessages = [],
     drawingStrokes = []\<rparr>"

definition client :: "User \<Rightarrow> Store \<Rightarrow> GameRoomView" where
  "client u db =
     loadGameRoom db
       \<lparr>view_roomCode = ''ABC123'', room = None, players = [], user = Some u,
        isDrawer = False\<rparr>"

definition joins :: "User \<Rightarrow> Store \<Rightarrow> Store" where
  "joins u db = snd (joinRoom (client u db) db)"

definition starts :: "User \<Rightarrow> string \<Rightarrow> string \<Rightarrow> Store \<Rightarrow> Store" where
  "starts u now w db = startGame now w (client u db) db"

definition advances :: "User \<Rightarrow> string \<Rightarrow> string \<Rightarrow> Store \<Rightarrow> Store" where
  "advances u now w db = nextRound now w (client u db) db"

definition chat_client :: "User \<Rightarrow> string \<Rightarrow> Store \<Rightarrow> ChatArea" where
  "chat_client u txt db =
     (let blank = \<lparr>chat_roomId = [], chat_currentWord = None, chat_isDrawer = False,
                   chat_gameState = waiting, newMessage = txt, chat_user = Some u\<rparr>
      in case room (client u db) of None \<Rightarrow> blank
         | Some r \<Rightarrow> chat_props r (client u db) blank)"

definition says :: "User \<Rightarrow> string \<Rightarrow> string \<Rightarrow> Store \<Rightarrow> Store" where
  "says u mid txt db = snd (snd (sendMessage mid (chat_client u txt db) (client u db) db))"

text \<open>
  The three join and \<open>alice\<close>, the host, starts the game: she draws \<open>cat\<close> in
  round 1. \<open>bob\<close> guesses the word. \<open>alice\<close>'s client advances the rounds until the
  game has finished.
\<close>

definition db_joined :: Store where
  "db_joined = joins carol (joins bob (joins alice db0))"

definition db_round1 :: Store where
  "db_round1 = starts alice ''t1'' ''cat'' db_joined"

definition db_guessed :: Store where
  "db_guessed = says bob ''m1'' '' Cat '' db_round1"

definition db_round2 :: Store where
  "db_round2 = advances alice ''t2'' ''dog'' db_guessed"

definition db_round3 :: Store where
  "db_round3 = advances alice ''t3'' ''tree'' db_round2"


text \<open>
  Another course of the game, in which no two players have the same score when a round
  ends: in round 1 \<open>carol\<close> sends the word three more times after \<open>bob\<close>'s guess;
  in round 2 \<open>alice\<close> sends the word twice.
\<close>

definition db_scored :: Store where
  "db_scored =
     says carol ''m4'' ''cat'' (says carol ''m3'' ''Cat'' (says carol ''m2'' ''CAT'' db_guessed))"

definition db_scored_round2 :: Store where
  "db_scored_round2 = advances alice ''t2'' ''dog'' db_scored"

definition db_scored_again :: Store where
  "db_scored_again = says alice ''m6'' ''dog'' (says alice ''m5'' ''DOG'' db_scored_round2)"

definition db_scored_round3 :: Store where
  "db_scored_round3 = advances alice ''t3'' ''tree'' db_scored_again"

text \<open>
  Drawing in round 1. A drawing component starts with a black brush of size 5 and a
  new canvas, and loads the strokes when it is mounted (\<open>canvas_client\<close>). The drawer
  \<open>alice\<close> picks the eraser and draws one stroke; the viewer \<open>bob\<close> reloads on the
  notification; \<open>alice\<close> undoes the stroke and \<open>bob\<close> reloads again; \<open>carol\<close>
  opens the page only then.
\<close>

definition new_canvas :: DrawingCanvas where
  "new_canvas =
     \<lparr>dc_roomId = [], canDraw = False, dc_currentRound = 0, isDrawing = False,
      currentColor = ''#000000'', brushSize = 5, tool_isEraser = False, strokes = [],
      currentStroke = [], canvas = Some fresh_ctx\<rparr>"

definition canvas_client :: "User \<Rightarrow> Store \<Rightarrow> DrawingCanvas" where
  "canvas_client u db =
     (case room (client u db) of None \<Rightarrow> new_canvas
      | Some r \<Rightarrow> loadStrokes db (canvas_props r (client u db) new_canvas))"

definition one_stroke :: "mouseEvent list" where
  "one_stroke =
     [MouseDown \<lparr>point_x = 10, point_y = 10\<rparr>, MouseMove \<lparr>point_x = 20, point_y = 15\<rparr>,
      MouseMove \<lparr>point_x = 30, point_y = 15\<rparr>, MouseUp ''s1'']"

definition alice_erasing :: "DrawingCanvas \<times> Store" where
  "alice_erasing =
     fold handle one_stroke ((canvas_client alice db_round1)\<lparr>tool_isEraser := True\<rparr>, db_round1)"

definition db_erased :: Store where
  "db_erased = snd alice_erasing"

definition bob_sees_stroke :: DrawingCanvas where
  "bob_sees_stroke = loadStrokes db_erased (canvas_client bob db_round1)"

definition db_undone :: Store where
  "db_undone = snd (undoLastStroke (loadStrokes db_erased (fst alice_erasing)) db_erased)"

definition bob_sees_undo :: DrawingCanvas where
  "bob_sees_undo = loadStrokes db_undone bob_sees_stroke"

definition carol_arrives :: DrawingCanvas where
  "carol_arrives = canvas_client carol db_undone"

section \<open>Properties of the scoring policy\<close>







section \<open>Properties of the drawer rotation\<close>

lemma findIndex_first:
  assumes "i < length xs" "P (xs ! i)" "\<And>j. j < i \<Longrightarrow> \<not> P (xs ! j)"
  shows "findIndex P xs = int i"
  using assms
proof (induction xs arbitrary: i)
  case Nil
  then show ?case by simp
next
  case (Cons a xs)
  show ?case
  proof (cases i)
    case 0
    with Cons.prems show ?thesis by simp
  next
    case (Suc k)
    from Cons.prems(3) [of 0] Suc have na: "\<not> P a" by simp
    have "findIndex P xs = int k"
    proof (rule Cons.IH)
      show "k < length xs" using Cons.prems(1) Suc by simp
      show "P (xs ! k)" using Cons.prems(2) Suc by simp
      show "\<not> P (xs ! j)" if "j < k" for j
        using Cons.prems(3) [of "Suc j"] that Suc by simp
    qed
    with na Suc show ?thesis by (simp add: Let_def)
  qed
qed

lemma findIndex_none: "(\<And>x. x \<in> set xs \<Longrightarrow> \<not> P x) \<Longrightarrow> findIndex P xs = - 1"
  by (induction xs) (auto simp: Let_def)

lemma findIndex_distinct:
  assumes "distinct (map f xs)" "i < length xs"
  shows "findIndex (\<lambda>p. Some (f p) = Some (f (xs ! i))) xs = int i"
proof (rule findIndex_first)
  show "i < length xs" by fact
  show "Some (f (xs ! i)) = Some (f (xs ! i))" by simp
  show "\<not> Some (f (xs ! j)) = Some (f (xs ! i))" if "j < i" for j
  proof -
    from that assms(2) have "j < length xs" "j \<noteq> i" by simp_all
    with assms have "map f xs ! j \<noteq> map f xs ! i"
      by (simp add: nth_eq_iff_index_eq del: nth_map)
    with \<open>j < length xs\<close> assms(2) show ?thesis by simp
  qed
qed

lemma nextDrawer_successor:
  assumes "distinct (map userId ps)" "i < length ps"
  shows "nextDrawer ps (Some (userId (ps ! i))) = Some (ps ! (Suc i mod length ps))"
proof -
  from assms(2) have ne: "ps \<noteq> []" by auto
  have idx: "findIndex (\<lambda>p. userId p = userId (ps ! i)) ps = int i"
    using findIndex_distinct [OF assms] by simp
  have m: "(int i + 1) mod int (length ps) = int (Suc i mod length ps)"
    by (simp add: zmod_int add.commute)
  have lt: "Suc i mod length ps < length ps" using ne by simp
  show ?thesis
    using ne lt by (simp add: nextDrawer_def idx m at_index_def del: of_nat_Suc)
qed

lemma nextDrawer_absent:
  assumes "ps \<noteq> []" "\<And>p. p \<in> set ps \<Longrightarrow> Some (userId p) \<noteq> d"
  shows "nextDrawer ps d = Some (ps ! 0)"
proof -
  have "findIndex (\<lambda>p. Some (userId p) = d) ps = - 1"
    by (rule findIndex_none) (use assms(2) in auto)
  with assms(1) show ?thesis by (simp add: nextDrawer_def at_index_def)
qed

lemma nextDrawer_mem: "ps \<noteq> [] \<Longrightarrow> \<exists>d. nextDrawer ps drawer = Some d \<and> d \<in> set ps"
proof -
  assume ne: "ps \<noteq> []"
  let ?k = "(findIndex (\<lambda>p. Some (userId p) = drawer) ps + 1) mod int (length ps)"
  have "0 \<le> ?k" "?k < int (length ps)" using ne by simp_all
  then have "nat ?k < length ps" by linarith
  then show ?thesis using ne \<open>0 \<le> ?k\<close> \<open>?k < int (length ps)\<close>
    by (auto simp: nextDrawer_def at_index_def Let_def)
qed

lemma drawer_seq_rotation:
  assumes "distinct (map userId ps)" "i < length ps"
  shows "drawer_seq ps (Some (userId (ps ! i))) n =
           map (\<lambda>k. Some (userId (ps ! ((i + 1 + k) mod length ps)))) [0..<n]"
  using assms(2)
proof (induction n arbitrary: i)
  case 0
  then show ?case by simp
next
  case (Suc n)
  let ?j = "Suc i mod length ps"
  have ne: "ps \<noteq> []" using Suc.prems by auto
  have j: "?j < length ps" using ne by simp
  have step: "nextDrawer ps (Some (userId (ps ! i))) = Some (ps ! ?j)"
    by (rule nextDrawer_successor [OF assms(1) Suc.prems])
  have idx: "(?j + 1 + k) mod length ps = (i + 1 + Suc k) mod length ps" for k
    by (metis Suc_eq_plus1 add_Suc_right add_Suc_shift mod_add_left_eq)
  have "drawer_seq ps (Some (userId (ps ! i))) (Suc n) =
          Some (userId (ps ! ?j)) # drawer_seq ps (Some (userId (ps ! ?j))) n"
    by (simp add: step Let_def)
  also have "\<dots> = Some (userId (ps ! ?j)) #
                  map (\<lambda>k. Some (userId (ps ! ((?j + 1 + k) mod length ps)))) [0..<n]"
    by (simp only: Suc.IH [OF j])
  also have "\<dots> = Some (userId (ps ! ?j)) #
                  map (\<lambda>k. Some (userId (ps ! ((i + 1 + Suc k) mod length ps)))) [0..<n]"
    by (simp only: idx)
  also have "Some (userId (ps ! ?j)) = Some (userId (ps ! ((i + 1 + 0) mod length ps)))"
    by simp
  finally have "drawer_seq ps (Some (userId (ps ! i))) (Suc n) =
      Some (userId (ps ! ((i + 1 + 0) mod length ps))) #
      map (\<lambda>k. Some (userId (ps ! ((i + 1 + Suc k) mod length ps)))) [0..<n]" .
  also have "\<dots> = map (\<lambda>k. Some (userId (ps ! ((i + 1 + k) mod length ps)))) (0 # map Suc [0..<n])"
    by (simp add: comp_def)
  also have "0 # map Suc [0..<n] = [0..<Suc n]"
    by (simp add: upt_conv_Cons map_Suc_upt del: upt_Suc)
  finally show ?case .
qed

lemma drawer_seq_full_cycle:
  assumes "distinct (map userId ps)" "i < length ps"
  shows "drawer_seq ps (Some (userId (ps ! i))) (length ps) =
           map (\<lambda>p. Some (userId p)) (rotate (Suc i) ps)"
proof (rule nth_equalityI)
  show "length (drawer_seq ps (Some (userId (ps ! i))) (length ps)) =
          length (map (\<lambda>p. Some (userId p)) (rotate (Suc i) ps))"
    by (simp add: drawer_seq_rotation [OF assms])
next
  fix k assume "k < length (drawer_seq ps (Some (userId (ps ! i))) (length ps))"
  then have k: "k < length ps" by (simp add: drawer_seq_rotation [OF assms])
  have "(Suc i + k) mod length ps = (i + 1 + k) mod length ps" by simp
  with k show "drawer_seq ps (Some (userId (ps ! i))) (length ps) ! k =
          map (\<lambda>p. Some (userId p)) (rotate (Suc i) ps) ! k"
    by (simp add: drawer_seq_rotation [OF assms] nth_rotate del: rotate_Suc)
qed

lemma drawer_seq_distinct:
  assumes "distinct (map userId ps)" "i < length ps"
  shows "distinct (drawer_seq ps (Some (userId (ps ! i))) (length ps))"
proof -
  let ?ids = "map userId (rotate (Suc i) ps)"
  have d: "distinct ?ids"
    using assms(1) by (simp only: rotate_map [symmetric] distinct_rotate)
  have "inj_on Some (set ?ids)" by (simp add: inj_on_def)
  with d have "distinct (map Some ?ids)" by (simp only: distinct_map simp_thms)
  moreover have "map Some ?ids = map (\<lambda>p. Some (userId p)) (rotate (Suc i) ps)"
    by (simp only: map_map comp_def)
  ultimately show ?thesis
    by (simp only: drawer_seq_full_cycle [OF assms])
qed

text \<open>
  The local player list is the room's players in the store's order by descending score,
  not in join order.
\<close>

lemma loadGameRoom_players:
  assumes "filter (\<lambda>g. roomCode g = view_roomCode v) (gameRooms db) = g # gs"
  shows "players (loadGameRoom db v) = sort_key (\<lambda>p. - score p) (joinOrder db (room_id g))"
  using assms by (simp add: loadGameRoom_def joinOrder_def)

text \<open>
  C2, the claim as stated: \<open>nextRound\<close> selects the player after the current drawer in
  join order. In the example game \<open>alice\<close>, \<open>bob\<close> and \<open>carol\<close> joined in this
  order and \<open>alice\<close> draws first. \<open>bob\<close> guesses the word and leads the score list, so
  the reloaded list is \<open>bob\<close>, \<open>alice\<close>, \<open>carol\<close>, and \<open>nextRound\<close> makes
  \<open>carol\<close> the drawer of round 2 where join order gives \<open>bob\<close>. The same happens
  in the course of the game without equal scores: after round 1 the scores are 450 for
  \<open>carol\<close>, 150 for \<open>bob\<close> and 0 for \<open>alice\<close>, and \<open>carol\<close> draws in round 2;
  after round 2 they are 450, 300 for \<open>alice\<close> and 150, and \<open>alice\<close> draws again in
  round 3, before \<open>bob\<close> has drawn at all.
\<close>

theorem nextRound_join_order_counterexample:
  "map userId (joinOrder db_guessed ''R1'') = [''a'', ''b'', ''c''] \<and>
   map currentDrawerId (gameRooms db_round1) = [Some ''a''] \<and>
   map currentDrawerId (gameRooms db_guessed) = [Some ''a''] \<and>
   map (map_option userId \<circ> spec_nextDrawer db_guessed) (gameRooms db_guessed) = [Some ''b''] \<and>
   map currentDrawerId (gameRooms db_round2) = [Some ''c''] \<and>
   map userId (players (client alice db_scored)) = [''c'', ''b'', ''a''] \<and>
   map score (players (client alice db_scored)) = [450, 150, 0] \<and>
   map currentDrawerId (gameRooms db_scored) = [Some ''a''] \<and>
   map (map_option userId \<circ> spec_nextDrawer db_scored) (gameRooms db_scored) = [Some ''b''] \<and>
   map currentDrawerId (gameRooms db_scored_round2) = [Some ''c''] \<and>
   map userId (players (client alice db_scored_again)) = [''c'', ''a'', ''b''] \<and>
   map score (players (client alice db_scored_again)) = [450, 300, 150] \<and>
   map currentDrawerId (gameRooms db_scored_round3) = [Some ''a'']"
  by code_simp

text \<open>
  C2, amended: \<open>nextRound\<close> (before the last round) selects the player after the
  current drawer in the local player list, wrapping around at its end; that list is
  ordered by descending score. While the list stays the same, the drawers of as many
  rounds as there are players are the list rotated to start after the current drawer:
  every player once, none twice.
\<close>

theorem nextRound_rotates_loaded_list:
  assumes "room v = Some r" and "user v = Some u"
    and "distinct (map userId (players v))" and "i < length (players v)"
    and "currentDrawerId r = Some (userId (players v ! i))"
    and "currentRound r + 1 \<le> maxRounds r"
  shows "gameRooms (nextRound now w v db) =
           db_update room_id (room_id r)
             (\<lambda>g. g\<lparr>currentRound := currentRound r + 1,
                    currentDrawerId := Some (userId (players v ! (Suc i mod length (players v)))),
                    currentWord := Some w,
                    roundStartTime := Some now\<rparr>)
             (gameRooms db) \<and>
         drawer_seq (players v) (currentDrawerId r) (length (players v)) =
           map (\<lambda>p. Some (userId p)) (rotate (Suc i) (players v)) \<and>
         distinct (drawer_seq (players v) (currentDrawerId r) (length (players v)))"
proof (intro conjI)
  have nd: "nextDrawer (players v) (currentDrawerId r) =
              Some (players v ! (Suc i mod length (players v)))"
    unfolding assms(5) by (rule nextDrawer_successor [OF assms(3,4)])
  show "gameRooms (nextRound now w v db) =
           db_update room_id (room_id r)
             (\<lambda>g. g\<lparr>currentRound := currentRound r + 1,
                    currentDrawerId := Some (userId (players v ! (Suc i mod length (players v)))),
                    currentWord := Some w,
                    roundStartTime := Some now\<rparr>)
             (gameRooms db)"
    using assms(1,2,6) nd by (simp add: nextRound_def Let_def)
  show "drawer_seq (players v) (currentDrawerId r) (length (players v)) =
           map (\<lambda>p. Some (userId p)) (rotate (Suc i) (players v))"
    unfolding assms(5) by (rule drawer_seq_full_cycle [OF assms(3,4)])
  show "distinct (drawer_seq (players v) (currentDrawerId r) (length (players v)))"
    unfolding assms(5) by (rule drawer_seq_distinct [OF assms(3,4)])
qed

theorem nextRound_rotates_loaded_list_witness:
  "map userId (players (client alice db_guessed)) = [''b'', ''a'', ''c''] \<and>
   map currentDrawerId (gameRooms db_guessed) = [Some ''a''] \<and>
   map currentDrawerId (gameRooms (nextRound ''t2'' ''dog'' (client alice db_guessed) db_guessed)) =
     [Some ''c''] \<and>
   drawer_seq (players (client alice db_guessed)) (Some ''a'') 3 =
     [Some ''c'', Some ''b'', Some ''a'']"
proof -
  let ?v = "client alice db_guessed"
  let ?r = "the (room ?v)"
  have h1: "room ?v = Some ?r" by code_simp
  have h2: "user ?v = Some alice" by code_simp
  have h3: "distinct (map userId (players ?v))" by code_simp
  have h4: "1 < length (players ?v)" by code_simp
  have h5: "currentDrawerId ?r = Some (userId (players ?v ! 1))" by code_simp
  have h6: "currentRound ?r + 1 \<le> maxRounds ?r" by code_simp
  note A = nextRound_rotates_loaded_list [OF h1 h2 h3 h4 h5 h6, of "''t2''" "''dog''" db_guessed]
  show ?thesis using A by code_simp
qed

section \<open>Properties of the round engine\<close>

text \<open>
  C6: called with a loaded room, a signed-in user and a non-empty local player list (a
  room that is playing has at least the two players \<open>startGame\<close> asks for),
  \<open>nextRound\<close> in the last round (\<open>currentRound + 1 > maxRounds\<close>) writes
  \<open>gameState = finished\<close> to the room and nothing else: the store is otherwise the
  same, and the room's round counter, drawer, word and round start stay as they are.
  Otherwise it writes the incremented round counter, the next drawer (a player of the
  local list), the new word and the new round start.
\<close>

theorem nextRound_finishes_or_advances:
  assumes "room v = Some r" and "user v = Some u" and "players v \<noteq> []"
  shows "(maxRounds r < currentRound r + 1 \<longrightarrow>
            nextRound now w v db =
              db\<lparr>gameRooms :=
                   db_update room_id (room_id r) (\<lambda>g. g\<lparr>gameState := finished\<rparr>) (gameRooms db)\<rparr> \<and>
            map currentRound (gameRooms (nextRound now w v db)) = map currentRound (gameRooms db) \<and>
            map currentDrawerId (gameRooms (nextRound now w v db)) =
              map currentDrawerId (gameRooms db) \<and>
            map currentWord (gameRooms (nextRound now w v db)) = map currentWord (gameRooms db) \<and>
            map roundStartTime (gameRooms (nextRound now w v db)) =
              map roundStartTime (gameRooms db)) \<and>
         (currentRound r + 1 \<le> maxRounds r \<longrightarrow>
            (\<exists>d. nextDrawer (players v) (currentDrawerId r) = Some d \<and> d \<in> set (players v) \<and>
                 gameRooms (nextRound now w v db) =
                   db_update room_id (room_id r)
                     (\<lambda>g. g\<lparr>currentRound := currentRound r + 1,
                            currentDrawerId := Some (userId d),
                            currentWord := Some w,
                            roundStartTime := Some now\<rparr>)
                     (gameRooms db)))"
proof (intro conjI impI)
  assume last: "maxRounds r < currentRound r + 1"
  show fin: "nextRound now w v db =
      db\<lparr>gameRooms :=
           db_update room_id (room_id r) (\<lambda>g. g\<lparr>gameState := finished\<rparr>) (gameRooms db)\<rparr>"
    using assms(1,2) last by (simp add: nextRound_def Let_def)
  show "map currentRound (gameRooms (nextRound now w v db)) = map currentRound (gameRooms db)"
    by (simp add: fin db_update_def comp_def)
  show "map currentDrawerId (gameRooms (nextRound now w v db)) = map currentDrawerId (gameRooms db)"
    by (simp add: fin db_update_def comp_def)
  show "map currentWord (gameRooms (nextRound now w v db)) = map currentWord (gameRooms db)"
    by (simp add: fin db_update_def comp_def)
  show "map roundStartTime (gameRooms (nextRound now w v db)) = map roundStartTime (gameRooms db)"
    by (simp add: fin db_update_def comp_def)
next
  assume more: "currentRound r + 1 \<le> maxRounds r"
  from nextDrawer_mem [OF assms(3)] obtain d
    where d: "nextDrawer (players v) (currentDrawerId r) = Some d" "d \<in> set (players v)"
    by blast
  have "gameRooms (nextRound now w v db) =
          db_update room_id (room_id r)
            (\<lambda>g. g\<lparr>currentRound := currentRound r + 1, currentDrawerId := Some (userId d),
                   currentWord := Some w, roundStartTime := Some now\<rparr>)
            (gameRooms db)"
    using assms(1,2) more d(1) by (simp add: nextRound_def Let_def)
  with d show "\<exists>d. nextDrawer (players v) (currentDrawerId r) = Some d \<and> d \<in> set (players v) \<and>
      gameRooms (nextRound now w v db) =
        db_update room_id (room_id r)
          (\<lambda>g. g\<lparr>currentRound := currentRound r + 1, currentDrawerId := Some (userId d),
                 currentWord := Some w, roundStartTime := Some now\<rparr>)
          (gameRooms db)"
    by blast
qed

theorem nextRound_finishes_or_advances_witness:
  "map (\<lambda>g. (gameState g, currentRound g, currentDrawerId g, currentWord g))
     (gameRooms db_round3) = [(playing, 3, Some ''b'', Some ''tree'')] \<and>
   map (\<lambda>g. (gameState g, currentRound g, currentDrawerId g, currentWord g))
     (gameRooms (nextRound ''t4'' ''sun'' (client alice db_round3) db_round3)) =
     [(finished, 3, Some ''b'', Some ''tree'')] \<and>
   map (\<lambda>g. (gameState g, currentRound g, currentDrawerId g, currentWord g))
     (gameRooms db_round1) = [(playing, 1, Some ''a'', Some ''cat'')] \<and>
   map (\<lambda>g. (gameState g, currentRound g, currentDrawerId g, currentWord g))
     (gameRooms (nextRound ''t2'' ''dog'' (client alice db_round1) db_round1)) =
     [(playing, 2, Some ''b'', Some ''dog'')]"
proof -
  let ?v = "client alice db_round3"
  let ?r = "the (room ?v)"
  have h1: "room ?v = Some ?r" by code_simp
  have h2: "user ?v = Some alice" by code_simp
  have h3: "players ?v \<noteq> []" by code_simp
  have l: "maxRounds ?r < currentRound ?r + 1" by code_simp
  from nextRound_finishes_or_advances [OF h1 h2 h3, of "''t4''" "''sun''" db_round3] l
  have F: "nextRound ''t4'' ''sun'' ?v db_round3 =
      db_round3\<lparr>gameRooms :=
        db_update room_id (room_id ?r) (\<lambda>g. g\<lparr>gameState := finished\<rparr>) (gameRooms db_round3)\<rparr>"
    by blast
  let ?v1 = "client alice db_round1"
  let ?r1 = "the (room ?v1)"
  have k1: "room ?v1 = Some ?r1" by code_simp
  have k2: "user ?v1 = Some alice" by code_simp
  have k3: "players ?v1 \<noteq> []" by code_simp
  have m: "currentRound ?r1 + 1 \<le> maxRounds ?r1" by code_simp
  have n: "nextDrawer (players ?v1) (currentDrawerId ?r1) = Some (players ?v1 ! 1)" by code_simp
  from nextRound_finishes_or_advances [OF k1 k2 k3, of "''t2''" "''dog''" db_round1] m n
  have G: "gameRooms (nextRound ''t2'' ''dog'' ?v1 db_round1) =
      db_update room_id (room_id ?r1)
        (\<lambda>g. g\<lparr>currentRound := currentRound ?r1 + 1,
               currentDrawerId := Some (userId (players ?v1 ! 1)),
               currentWord := Some ''dog'',
               roundStartTime := Some ''t2''\<rparr>)
        (gameRooms db_round1)"
    by auto
  show ?thesis using F G by code_simp
qed

text \<open>
  Without a loaded room or a signed-in user, and before the last round with an empty
  local player list, \<open>nextRound\<close> writes nothing.
\<close>

lemma nextRound_unchanged:
  "room v = None \<or> user v = None \<or>
   (\<exists>r. room v = Some r \<and> currentRound r + 1 \<le> maxRounds r \<and> players v = []) \<Longrightarrow>
   nextRound now w v db = db"
  by (auto simp: nextRound_def nextDrawer_def Let_def split: option.splits)




text \<open>
  The state guard is in the view: a click on the start control, from a local copy that
  is a row of the store (room ids being unique), changes no room but a \<open>waiting\<close>
  one, which it makes \<open>playing\<close>.
\<close>

lemma same_id_same_row:
  assumes "distinct (map key rows)" "r \<in> set rows" "g \<in> set rows" "key g = key r"
  shows "g = r"
  using assms by (meson distinct_map inj_on_eq_iff)

lemma click_start_rows:
  assumes "room v = Some r" "r \<in> set (gameRooms db)" "distinct (map room_id (gameRooms db))"
  shows "list_all2
           (\<lambda>g g'. room_id g' = room_id g \<and>
              (g' = g \<or> (gameState g = waiting \<and> gameState g' = playing)))
           (gameRooms db) (gameRooms (click_start now w v db))"
proof (cases "start_enabled v")
  case False
  then show ?thesis by (simp add: click_start_def list_all2_refl)
next
  case True
  with assms(1) have w: "gameState r = waiting" by (simp add: start_enabled_def)
  have rows: "gameRooms (click_start now w v db) = gameRooms db \<or>
        (\<exists>f. gameRooms (click_start now w v db) = db_update room_id (room_id r) f (gameRooms db) \<and>
             (\<forall>g. room_id (f g) = room_id g \<and> gameState (f g) = playing))"
    using True assms(1)
    by (auto simp: click_start_def startGame_def split: option.splits list.splits)
  show ?thesis
  proof (rule disjE [OF rows])
    assume "gameRooms (click_start now w v db) = gameRooms db"
    then show ?thesis by (simp add: list_all2_refl)
  next
    assume "\<exists>f. gameRooms (click_start now w v db) = db_update room_id (room_id r) f (gameRooms db) \<and>
             (\<forall>g. room_id (f g) = room_id g \<and> gameState (f g) = playing)"
    then obtain f where f: "gameRooms (click_start now w v db) =
        db_update room_id (room_id r) f (gameRooms db)"
      "\<And>g. room_id (f g) = room_id g" "\<And>g. gameState (f g) = playing"
      by blast
    have "list_all2
           (\<lambda>g g'. room_id g' = room_id g \<and>
              (g' = g \<or> (gameState g = waiting \<and> gameState g' = playing)))
           (gameRooms db) (map (\<lambda>g. if room_id g = room_id r then f g else g) (gameRooms db))"
      unfolding list_all2_map2
    proof (rule list_all2_same [THEN iffD2], rule ballI)
      fix g assume g: "g \<in> set (gameRooms db)"
      show "room_id (if room_id g = room_id r then f g else g) = room_id g \<and>
            ((if room_id g = room_id r then f g else g) = g \<or>
             gameState g = waiting \<and>
             gameState (if room_id g = room_id r then f g else g) = playing)"
      proof (cases "room_id g = room_id r")
        case False
        then show ?thesis by simp
      next
        case True
        with same_id_same_row [OF assms(3) assms(2) g] have "g = r" by simp
        with True w f(2,3) show ?thesis by simp
      qed
    qed
    then show ?thesis by (simp add: f(1) db_update_def)
  qed
qed










section \<open>Properties of guessing and awarding\<close>








text \<open>
  C10: the points computed for a correct guess are \<open>calculatePoints(60)\<close>, that is
  150; \<open>sendMessage\<close> hands exactly 150 to \<open>awardPoints\<close> for every message marked
  correct, and awards nothing for any other message. The component has no access to
  the time left.
\<close>

theorem sendMessage_awards_150:
  "awarded_points = Some 150 \<and>
   (\<forall>m. messageData mid c = Some m \<and> msg_id m \<notin> set (map msg_id (gameMessages db)) \<longrightarrow>
      sendMessage mid c v db =
        (if isCorrect m
         then (c\<lparr>newMessage := []\<rparr>,
               awardPoints (msg_userId m) 150 v (db\<lparr>gameMessages := gameMessages db @ [m]\<rparr>))
         else (c\<lparr>newMessage := []\<rparr>, v, db\<lparr>gameMessages := gameMessages db @ [m]\<rparr>)))"
proof -
  have p: "awarded_points = Some 150"
    by (simp add: awarded_points_def calculatePoints_default_def calculatePoints_def)
  show ?thesis
    by (auto simp: p sendMessage_def Let_def)
qed

theorem sendMessage_awards_150_witness:
  "map score (roomPlayers db_round1) = [0, 0, 0] \<and>
   map score (roomPlayers (says bob ''m1'' '' Cat '' db_round1)) = [0, 150, 0] \<and>
   map score (roomPlayers (says carol ''m1'' ''CAT'' db_round1)) = [0, 0, 150] \<and>
   map score (roomPlayers (says carol ''m1'' ''dog'' db_round1)) = [0, 0, 0]"
proof -
  let ?c = "chat_client bob '' Cat '' db_round1"
  let ?v = "client bob db_round1"
  let ?m = "the (messageData ''m1'' ?c)"
  have a: "messageData ''m1'' ?c = Some ?m" by code_simp
  have b: "isCorrect ?m" by code_simp
  have c: "msg_id ?m \<notin> set (map msg_id (gameMessages db_round1))" by code_simp
  from sendMessage_awards_150 [of "''m1''" ?c db_round1 ?v] a b c
  have X: "sendMessage ''m1'' ?c ?v db_round1 =
      (?c\<lparr>newMessage := []\<rparr>,
       awardPoints (msg_userId ?m) 150 ?v (db_round1\<lparr>gameMessages := gameMessages db_round1 @ [?m]\<rparr>))"
    by simp
  show ?thesis using X by code_simp
qed




section \<open>Properties of the drawing component\<close>





text \<open>
  What replay does: a stroke of at least two points is painted as one path through its
  points, in its colour and width, with round caps and joins, by \<open>destination-out\<close>
  when it is an eraser stroke and by \<open>source-over\<close> otherwise; strokes are replayed
  in the order of the list; and the bitmap after \<open>redrawCanvas\<close> is determined by
  the stroke list together with the compositing mode and line width the context has
  when \<open>redrawCanvas\<close> begins.
\<close>

lemma lineTo_same_path:
  assumes "path c1 = path c2"
  shows "path (lineTo p c1) = path (lineTo p c2)"
  using assms by (simp add: lineTo_def)

lemma lineTo_keeps:
  "bitmap (lineTo p c) = bitmap c \<and> strokeStyle (lineTo p c) = strokeStyle c \<and>
   lineWidth (lineTo p c) = lineWidth c \<and> lineCap (lineTo p c) = lineCap c \<and>
   lineJoin (lineTo p c) = lineJoin c \<and>
   globalCompositeOperation (lineTo p c) = globalCompositeOperation c"
  by (simp add: lineTo_def)

lemma lines_agree:
  assumes "path c1 = path c2" "bitmap c1 = bitmap c2" "strokeStyle c1 = strokeStyle c2"
    "lineWidth c1 = lineWidth c2" "lineCap c1 = lineCap c2" "lineJoin c1 = lineJoin c2"
    "globalCompositeOperation c1 = globalCompositeOperation c2"
  shows "bitmap (stroke (foldl (\<lambda>c p. lineTo p c) c1 ps)) =
           bitmap (stroke (foldl (\<lambda>c p. lineTo p c) c2 ps)) \<and>
         lineWidth (stroke (foldl (\<lambda>c p. lineTo p c) c1 ps)) =
           lineWidth (stroke (foldl (\<lambda>c p. lineTo p c) c2 ps)) \<and>
         globalCompositeOperation (stroke (foldl (\<lambda>c p. lineTo p c) c1 ps)) =
           globalCompositeOperation (stroke (foldl (\<lambda>c p. lineTo p c) c2 ps))"
  using assms
proof (induction ps arbitrary: c1 c2)
  case Nil
  then show ?case by (simp add: stroke_def)
next
  case (Cons p ps)
  have a: "path (lineTo p c1) = path (lineTo p c2)"
    by (rule lineTo_same_path) (rule Cons.prems)
  have b: "bitmap (lineTo p c1) = bitmap (lineTo p c2)"
    "strokeStyle (lineTo p c1) = strokeStyle (lineTo p c2)"
    "lineWidth (lineTo p c1) = lineWidth (lineTo p c2)"
    "lineCap (lineTo p c1) = lineCap (lineTo p c2)"
    "lineJoin (lineTo p c1) = lineJoin (lineTo p c2)"
    "globalCompositeOperation (lineTo p c1) = globalCompositeOperation (lineTo p c2)"
    using Cons.prems by (simp_all only: lineTo_keeps)
  from Cons.IH [OF a b] show ?case by simp
qed

text \<open>The context in which \<open>drawStroke\<close> starts its lines.\<close>

lemma drawStroke_unfold:
  assumes "points sd = p0 # p1 # rest"
  shows "drawStroke sd c =
     stroke (foldl (\<lambda>c p. lineTo p c)
       (moveTo p0
         ((set_lineWidth (stroke_size sd) ((beginPath c)\<lparr>strokeStyle := color sd\<rparr>))
           \<lparr>lineCap := ''round'', lineJoin := ''round'',
            globalCompositeOperation := (if isEraser sd then destination_out else source_over)\<rparr>))
       (p1 # rest))"
  using assms by (simp add: drawStroke_def Let_def)

lemma drawStroke_agree:
  assumes "bitmap c1 = bitmap c2" "lineWidth c1 = lineWidth c2"
    "globalCompositeOperation c1 = globalCompositeOperation c2"
  shows "bitmap (drawStroke sd c1) = bitmap (drawStroke sd c2) \<and>
         lineWidth (drawStroke sd c1) = lineWidth (drawStroke sd c2) \<and>
         globalCompositeOperation (drawStroke sd c1) = globalCompositeOperation (drawStroke sd c2)"
proof (cases "points sd")
  case Nil
  with assms show ?thesis by (simp add: drawStroke_def)
next
  case (Cons p0 rest)
  show ?thesis
  proof (cases rest)
    case Nil
    with Cons assms show ?thesis by (simp add: drawStroke_def)
  next
    case (Cons p1 rest')
    with \<open>points sd = p0 # rest\<close> have pts: "points sd = p0 # p1 # rest'" by simp
    let ?start = "\<lambda>c. moveTo p0
        ((set_lineWidth (stroke_size sd) ((beginPath c)\<lparr>strokeStyle := color sd\<rparr>))
          \<lparr>lineCap := ''round'', lineJoin := ''round'',
           globalCompositeOperation := (if isEraser sd then destination_out else source_over)\<rparr>)"
    have f: "path (?start c) = [[p0]]" "bitmap (?start c) = bitmap c"
      "strokeStyle (?start c) = color sd"
      "lineWidth (?start c) = (if 0 < stroke_size sd then stroke_size sd else lineWidth c)"
      "lineCap (?start c) = ''round''" "lineJoin (?start c) = ''round''"
      "globalCompositeOperation (?start c) = (if isEraser sd then destination_out else source_over)"
      for c
      by (simp_all add: moveTo_def set_lineWidth_def beginPath_def)
    have "bitmap (stroke (foldl (\<lambda>c p. lineTo p c) (?start c1) (p1 # rest'))) =
            bitmap (stroke (foldl (\<lambda>c p. lineTo p c) (?start c2) (p1 # rest'))) \<and>
          lineWidth (stroke (foldl (\<lambda>c p. lineTo p c) (?start c1) (p1 # rest'))) =
            lineWidth (stroke (foldl (\<lambda>c p. lineTo p c) (?start c2) (p1 # rest'))) \<and>
          globalCompositeOperation (stroke (foldl (\<lambda>c p. lineTo p c) (?start c1) (p1 # rest'))) =
            globalCompositeOperation (stroke (foldl (\<lambda>c p. lineTo p c) (?start c2) (p1 # rest')))"
    proof (rule lines_agree)
      show "path (?start c1) = path (?start c2)" by (simp only: f)
      show "bitmap (?start c1) = bitmap (?start c2)" by (simp only: f assms)
      show "strokeStyle (?start c1) = strokeStyle (?start c2)" by (simp only: f)
      show "lineWidth (?start c1) = lineWidth (?start c2)" by (simp only: f assms)
      show "lineCap (?start c1) = lineCap (?start c2)" by (simp only: f)
      show "lineJoin (?start c1) = lineJoin (?start c2)" by (simp only: f)
      show "globalCompositeOperation (?start c1) = globalCompositeOperation (?start c2)"
        by (simp only: f)
    qed
    then show ?thesis by (simp only: drawStroke_unfold [OF pts])
  qed
qed


lemma replay_agree:
  assumes "bitmap c1 = bitmap c2" "lineWidth c1 = lineWidth c2"
    "globalCompositeOperation c1 = globalCompositeOperation c2"
  shows "bitmap (foldl (\<lambda>c s. case strokeData s of None \<Rightarrow> c | Some sd \<Rightarrow> drawStroke sd c) c1 ss) =
         bitmap (foldl (\<lambda>c s. case strokeData s of None \<Rightarrow> c | Some sd \<Rightarrow> drawStroke sd c) c2 ss)"
  using assms
proof (induction ss arbitrary: c1 c2)
  case Nil
  then show ?case by simp
next
  case (Cons s ss)
  show ?case
  proof (cases "strokeData s")
    case None
    with Cons.IH [OF Cons.prems] show ?thesis by simp
  next
    case (Some sd)
    from drawStroke_agree [OF Cons.prems, of sd]
    have "bitmap (drawStroke sd c1) = bitmap (drawStroke sd c2)"
      "lineWidth (drawStroke sd c1) = lineWidth (drawStroke sd c2)"
      "globalCompositeOperation (drawStroke sd c1) = globalCompositeOperation (drawStroke sd c2)"
      by simp_all
    from Cons.IH [OF this] show ?thesis by (simp add: Some)
  qed
qed

lemma redrawCanvas_same_mode:
  assumes "globalCompositeOperation c1 = globalCompositeOperation c2" "lineWidth c1 = lineWidth c2"
  shows "bitmap (redrawCanvas ss c1) = bitmap (redrawCanvas ss c2)"
  unfolding redrawCanvas_def
proof (rule replay_agree)
  show "bitmap (fillRect ((clearRect c1)\<lparr>fillStyle := ''#ffffff''\<rparr>)) =
        bitmap (fillRect ((clearRect c2)\<lparr>fillStyle := ''#ffffff''\<rparr>))"
    by (simp add: fillRect_def clearRect_def assms)
  show "lineWidth (fillRect ((clearRect c1)\<lparr>fillStyle := ''#ffffff''\<rparr>)) =
        lineWidth (fillRect ((clearRect c2)\<lparr>fillStyle := ''#ffffff''\<rparr>))"
    by (simp add: fillRect_def clearRect_def assms)
  show "globalCompositeOperation (fillRect ((clearRect c1)\<lparr>fillStyle := ''#ffffff''\<rparr>)) =
        globalCompositeOperation (fillRect ((clearRect c2)\<lparr>fillStyle := ''#ffffff''\<rparr>))"
    by (simp add: fillRect_def clearRect_def assms)
qed

lemma redrawCanvas_snoc:
  "redrawCanvas (ss @ [s]) c =
     (case strokeData s of None \<Rightarrow> redrawCanvas ss c
      | Some sd \<Rightarrow> drawStroke sd (redrawCanvas ss c))"
  by (cases "strokeData s") (simp_all add: redrawCanvas_def)

lemma redrawCanvas_Nil:
  "bitmap (redrawCanvas [] c) = [FillRect ''#ffffff'' (globalCompositeOperation c)]"
  by (simp add: redrawCanvas_def fillRect_def clearRect_def)


lemma lines_path:
  assumes "path c = [q]"
  shows "path (foldl (\<lambda>c p. lineTo p c) c ps) = [q @ ps]"
  using assms
proof (induction ps arbitrary: c q)
  case Nil
  then show ?case by simp
next
  case (Cons p ps)
  have "path (lineTo p c) = [q @ [p]]" using Cons.prems by (simp add: lineTo_def)
  from Cons.IH [OF this] show ?case by simp
qed

lemma lines_keep:
  "bitmap (foldl (\<lambda>c p. lineTo p c) c ps) = bitmap c \<and>
   strokeStyle (foldl (\<lambda>c p. lineTo p c) c ps) = strokeStyle c \<and>
   lineWidth (foldl (\<lambda>c p. lineTo p c) c ps) = lineWidth c \<and>
   lineCap (foldl (\<lambda>c p. lineTo p c) c ps) = lineCap c \<and>
   lineJoin (foldl (\<lambda>c p. lineTo p c) c ps) = lineJoin c \<and>
   globalCompositeOperation (foldl (\<lambda>c p. lineTo p c) c ps) = globalCompositeOperation c"
proof (induction ps arbitrary: c)
  case Nil
  show ?case by simp
next
  case (Cons p ps)
  from Cons [of "lineTo p c"] lineTo_keeps [of p c] show ?case by simp
qed

lemma drawStroke_paints:
  assumes "points sd = p0 # p1 # rest"
  shows "bitmap (drawStroke sd c) =
           bitmap c @
           [StrokePath [points sd] (color sd)
              (if 0 < stroke_size sd then stroke_size sd else lineWidth c)
              ''round'' ''round'' (if isEraser sd then destination_out else source_over)]"
proof -
  let ?start = "moveTo p0
        ((set_lineWidth (stroke_size sd) ((beginPath c)\<lparr>strokeStyle := color sd\<rparr>))
          \<lparr>lineCap := ''round'', lineJoin := ''round'',
           globalCompositeOperation := (if isEraser sd then destination_out else source_over)\<rparr>)"
  let ?fin = "foldl (\<lambda>c p. lineTo p c) ?start (p1 # rest)"
  have f: "path ?start = [[p0]]" "bitmap ?start = bitmap c"
      "strokeStyle ?start = color sd"
      "lineWidth ?start = (if 0 < stroke_size sd then stroke_size sd else lineWidth c)"
      "lineCap ?start = ''round''" "lineJoin ?start = ''round''"
      "globalCompositeOperation ?start = (if isEraser sd then destination_out else source_over)"
    by (simp_all add: moveTo_def set_lineWidth_def beginPath_def)
  have p: "path ?fin = [[p0] @ (p1 # rest)]" by (rule lines_path) (rule f)
  have k: "bitmap ?fin = bitmap c" "strokeStyle ?fin = color sd"
      "lineWidth ?fin = (if 0 < stroke_size sd then stroke_size sd else lineWidth c)"
      "lineCap ?fin = ''round''" "lineJoin ?fin = ''round''"
      "globalCompositeOperation ?fin = (if isEraser sd then destination_out else source_over)"
    using lines_keep [of ?start "p1 # rest"] by (simp_all only: f)
  have "bitmap (stroke ?fin) =
           bitmap c @
           [StrokePath [p0 # p1 # rest] (color sd)
              (if 0 < stroke_size sd then stroke_size sd else lineWidth c)
              ''round'' ''round'' (if isEraser sd then destination_out else source_over)]"
  proof -
    have st: "bitmap (stroke X) =
        bitmap X @ [StrokePath (path X) (strokeStyle X) (lineWidth X) (lineCap X) (lineJoin X)
                      (globalCompositeOperation X)]" for X
      by (simp add: stroke_def)
    show ?thesis by (simp only: st [of ?fin] p k append_Cons append_Nil)
  qed
  then show ?thesis by (simp only: drawStroke_unfold [OF assms] assms)
qed

text \<open>
  C8: two clients with the same stroke log render identical canvases, however many
  undo or clear operations came before and however late a client joined. The code
  does not: \<open>redrawCanvas\<close> fills the background without resetting
  \<open>globalCompositeOperation\<close>, which \<open>drawStroke\<close> leaves at \<open>destination-out\<close>
  after an eraser stroke. In the example \<open>alice\<close> draws one eraser stroke and undoes
  it. \<open>bob\<close>, who replayed the stroke, then replays the empty log: his white fill is
  composited by \<open>destination-out\<close> and the canvas stays transparent. \<open>carol\<close>, who
  arrives after the undo, replays the same empty log on a new context and gets a white
  canvas.
\<close>

theorem redrawCanvas_after_eraser:
  "strokes bob_sees_undo = [] \<and> strokes carol_arrives = [] \<and>
   map_option background (canvas bob_sees_undo) = Some Transparent \<and>
   map_option background (canvas carol_arrives) = Some (Colour ''#ffffff'') \<and>
   map_option globalCompositeOperation (canvas bob_sees_stroke) = Some destination_out \<and>
   background (redrawCanvas [] (redrawCanvas (drawingStrokes db_erased) fresh_ctx)) = Transparent \<and>
   background (redrawCanvas [] fresh_ctx) = Colour ''#ffffff''"
  by code_simp

end
